theory Spec2Isabelle
  imports Main
begin

section \<open>Unity process manager: data model\<close>

text \<open>
  The development embeds \<^verbatim>\<open>src/UnityMCP/unity_manager.py\<close> (class \<^verbatim>\<open>UnityManager\<close>)
  and \<^verbatim>\<open>MCPConfig.validate_unity_project_path\<close>, \<^verbatim>\<open>MCPConfig.get_unity_editor_path\<close> of
  \<^verbatim>\<open>src/config.py\<close>.

  Python \<^verbatim>\<open>bytes\<close> are lists of \<open>char\<close> (a \<open>char\<close> is one byte). A Python \<^verbatim>\<open>str\<close> is
  represented by its UTF-8 encoding, so concatenating two \<^verbatim>\<open>str\<close> is \<open>@\<close> and
  \<^verbatim>\<open>bytes.decode()\<close> is the identity on well-formed UTF-8 and raises otherwise.
\<close>

type_synonym bytes = string

text \<open>
  Values produced by \<^verbatim>\<open>json.loads\<close> and accepted by \<^verbatim>\<open>json.dumps\<close>. Floating point
  numbers are left out: the manager never inspects a decoded value.
\<close>

datatype json =
    JNull
  | JBool bool
  | JInt int
  | JStr string
  | JArr "json list"
  | JObj "(string \<times> json) list"

text \<open>
  The exceptions that leave \<^verbatim>\<open>execute_unity_command\<close>, each with the text \<^verbatim>\<open>str(e)\<close>
  gives. \<open>AsyncioTimeoutError\<close> is \<^verbatim>\<open>asyncio.TimeoutError\<close>, raised by
  \<^verbatim>\<open>asyncio.wait_for\<close>. \<open>OSError\<close> stands for an \<^verbatim>\<open>OSError\<close> that is not a timeout:
  what \<^verbatim>\<open>asyncio.create_subprocess_exec\<close> raises when the process cannot be created,
  and what \<^verbatim>\<open>Path.exists()\<close> and \<^verbatim>\<open>Path.is_dir()\<close> re-raise. \<open>CancelledError\<close> is
  \<^verbatim>\<open>asyncio.CancelledError\<close>, raised at an \<^verbatim>\<open>await\<close> when the task is cancelled; it is a
  \<^verbatim>\<open>BaseException\<close> and not an \<^verbatim>\<open>Exception\<close>.
\<close>

datatype py_exception =
    ValueError string
  | RuntimeError string
  | TimeoutError string
  | UnicodeDecodeError string
  | OSError string
  | RecursionError string
  | AsyncioTimeoutError
  | CancelledError

fun str_exc :: "py_exception \<Rightarrow> string" where
  "str_exc (ValueError m) = m"
| "str_exc (RuntimeError m) = m"
| "str_exc (TimeoutError m) = m"
| "str_exc (UnicodeDecodeError m) = m"
| "str_exc (OSError m) = m"
| "str_exc (RecursionError m) = m"
| "str_exc AsyncioTimeoutError = []"
| "str_exc CancelledError = []"

text \<open>
  The field \<^verbatim>\<open>status: str\<close> of \<^verbatim>\<open>UnityOperation\<close> carries the comment
  \<^verbatim>\<open># pending, running, completed, failed\<close>; the four strings are the constructors here.
\<close>

datatype op_status = Pending | Running | Completed | Failed

text \<open>
  \<^verbatim>\<open>class UnityOperation(BaseModel)\<close>. Times are clock readings in microseconds.
  The field \<^verbatim>\<open>id\<close> is \<open>op_id\<close> and \<^verbatim>\<open>project_path\<close> is \<open>op_project_path\<close>.
\<close>

record unity_operation =
  op_id :: string
  command :: string
  op_project_path :: string
  status :: op_status
  start_time :: "int option"
  end_time :: "int option"
  result :: "json option"
  error :: "string option"

text \<open>
  An operating-system process started for one command. \<open>returncode\<close> is what
  \<^verbatim>\<open>poll()\<close> reports: \<open>None\<close> while the process is alive. \<open>exits_on_sigterm\<close> says
  whether the process is gone one second after \<^verbatim>\<open>terminate()\<close>.
\<close>

record process =
  argv :: "string list"
  cwd :: string
  stdin_data :: "json option"
  returncode :: "int option"
  exits_on_sigterm :: bool

datatype node_kind = File | Dir

text \<open>
  What \<^verbatim>\<open>stat\<close> on a path gives: no such entry (the errors \<^verbatim>\<open>ENOENT\<close>, \<^verbatim>\<open>ENOTDIR\<close>,
  \<^verbatim>\<open>EBADF\<close>, \<^verbatim>\<open>ELOOP\<close>, which \<^verbatim>\<open>pathlib\<close> takes as absence), an entry of some kind, or
  another \<^verbatim>\<open>OSError\<close> with its text (name too long, permission denied).
\<close>

datatype stat_outcome = Absent | Present node_kind | Unreadable string

text \<open>
  What \<^verbatim>\<open>json.loads\<close> does with a text: it returns a value, raises
  \<^verbatim>\<open>JSONDecodeError\<close>, or raises another exception, \<^verbatim>\<open>RecursionError\<close> on deep nesting
  or a plain \<^verbatim>\<open>ValueError\<close> on an integer with too many digits; each with its text.
\<close>

datatype loads_outcome =
    Loaded json
  | DecodeFails string
  | RecursionFails string
  | ValueFails string

text \<open>
  What the surroundings decide and the manager only reads: the configuration object
  (\<open>unity_editor_path\<close>, \<open>unity_log_file\<close>), \<^verbatim>\<open>platform.system()\<close>,
  \<^verbatim>\<open>tempfile.gettempdir()\<close>, the library function \<^verbatim>\<open>json.loads\<close>, the text of a
  \<^verbatim>\<open>UnicodeDecodeError\<close>, the printed form of \<^verbatim>\<open>datetime.now().timestamp()\<close>, and by how
  much the clock has moved at the \<open>k\<close>-th call of \<^verbatim>\<open>datetime.now()\<close> since the call
  before. \<^verbatim>\<open>datetime.now()\<close> is local wall time: it can step back (the end of daylight
  saving time, a clock that is set), so a tick may be negative.
\<close>

record environment =
  unity_editor_path :: "string option"
  unity_log_file :: string
  platform_system :: string
  tempdir :: string
  json_loads :: "string \<Rightarrow> loads_outcome"
  codec_error_text :: "bytes \<Rightarrow> string"
  timestamp_str :: "int \<Rightarrow> string"
  ticks :: "nat \<Rightarrow> int"

text \<open>
  The state: the three attributes of \<^verbatim>\<open>UnityManager\<close>, and the part of the world the
  manager acts on. \<open>files\<close> is what \<^verbatim>\<open>stat\<close> reports for a path, \<open>procs\<close> the processes
  created so far (a handle is an index into it), \<open>clock\<close> the last reading of the
  clock and \<open>now_calls\<close> the number of readings taken. \<open>status_log\<close> is a ghost
  field: it lists, in order, every value given to the \<^verbatim>\<open>status\<close> field of a record,
  with the record's id.
\<close>

record state =
  active_operations :: "string \<rightharpoonup> unity_operation"
  unity_processes :: "(string \<times> nat) list"
  bridge_script_path :: string
  files :: "string \<Rightarrow> stat_outcome"
  procs :: "process list"
  clock :: int
  now_calls :: nat
  status_log :: "(string \<times> op_status) list"

text \<open>
  What happens at the two \<^verbatim>\<open>await\<close>s of one call. The process cannot be created; it
  exits before the timeout with an exit code and the bytes captured from its standard
  output and standard error; or it is still running when the timeout elapses (the flag
  is the process's \<open>exits_on_sigterm\<close>). Or the task is cancelled: while the process is
  being created, and then \<^verbatim>\<open>asyncio\<close> closes the transport, which kills the process; or
  while the call waits for the process, which goes on running.
\<close>

datatype behaviour =
    LaunchFails string
  | Exits int bytes bytes
  | Hangs bool
  | CancelledAtLaunch
  | Cancelled bool

section \<open>Library functions\<close>

text \<open>Decimal printing of an integer, as an f-string prints an \<^verbatim>\<open>int\<close>.\<close>

function show_nat :: "nat \<Rightarrow> string" where
  "show_nat n =
     (if n < 10 then [''0123456789'' ! n]
      else show_nat (n div 10) @ [''0123456789'' ! (n mod 10)])"
  by pat_completeness auto
termination
  by (relation "measure (\<lambda>n. n)") auto

declare show_nat.simps [simp del]

definition show_int :: "int \<Rightarrow> string" where
  "show_int i = (if i < 0 then ''-'' @ show_nat (nat (- i)) else show_nat (nat i))"

text \<open>Well-formed UTF-8 (the byte ranges Python's strict \<^verbatim>\<open>utf-8\<close> codec accepts).\<close>

definition cont_byte :: "nat \<Rightarrow> bool" where
  "cont_byte b = (0x80 \<le> b \<and> b \<le> 0xBF)"

fun utf8_valid :: "nat list \<Rightarrow> bool" where
  "utf8_valid [] = True"
| "utf8_valid (b # bs) =
     (if b < 0x80 then utf8_valid bs
      else if 0xC2 \<le> b \<and> b \<le> 0xDF then
        (case bs of c1 # r \<Rightarrow> cont_byte c1 \<and> utf8_valid r | _ \<Rightarrow> False)
      else if 0xE0 \<le> b \<and> b \<le> 0xEF then
        (case bs of
           c1 # c2 # r \<Rightarrow>
             (if b = 0xE0 then 0xA0 \<le> c1 \<and> c1 \<le> 0xBF
              else if b = 0xED then 0x80 \<le> c1 \<and> c1 \<le> 0x9F
              else cont_byte c1)
             \<and> cont_byte c2 \<and> utf8_valid r
         | _ \<Rightarrow> False)
      else if 0xF0 \<le> b \<and> b \<le> 0xF4 then
        (case bs of
           c1 # c2 # c3 # r \<Rightarrow>
             (if b = 0xF0 then 0x90 \<le> c1 \<and> c1 \<le> 0xBF
              else if b = 0xF4 then 0x80 \<le> c1 \<and> c1 \<le> 0x8F
              else cont_byte c1)
             \<and> cont_byte c2 \<and> cont_byte c3 \<and> utf8_valid r
         | _ \<Rightarrow> False)
      else False)"

text \<open>\<^verbatim>\<open>b.decode()\<close>: the text, or a \<^verbatim>\<open>UnicodeDecodeError\<close>.\<close>

definition decode :: "environment \<Rightarrow> bytes \<Rightarrow> py_exception + string" where
  "decode env b =
     (if utf8_valid (map of_char b) then Inr b
      else Inl (UnicodeDecodeError (codec_error_text env b)))"

text \<open>
  \<^verbatim>\<open>str(Path(s))\<close> for a POSIX path: empty and \<^verbatim>\<open>.\<close> components are dropped, exactly two
  leading slashes are kept, and the empty path is \<^verbatim>\<open>.\<close>.
\<close>

fun split_on :: "char \<Rightarrow> string \<Rightarrow> string list" where
  "split_on c [] = [Nil]"
| "split_on c (x # xs) =
     (if x = c then [] # split_on c xs
      else (case split_on c xs of p # ps \<Rightarrow> (x # p) # ps | [] \<Rightarrow> [x # Nil]))"

fun join_with :: "string \<Rightarrow> string list \<Rightarrow> string" where
  "join_with sep [] = []"
| "join_with sep [p] = p"
| "join_with sep (p # q # ps) = p @ sep @ join_with sep (q # ps)"

definition Path :: "string \<Rightarrow> string" where
  "Path s =
     (let parts = filter (\<lambda>p. p \<noteq> [] \<and> p \<noteq> ''.'') (split_on (CHR ''/'') s);
          lead = length (takeWhile (\<lambda>c. c = CHR ''/'') s);
          root = (if lead = 0 then [] else if lead = 2 then ''//'' else ''/'')
      in if root = [] \<and> parts = [] then ''.'' else root @ join_with ''/'' parts)"

text \<open>\<^verbatim>\<open>str(p / name)\<close> for a path \<open>p\<close> already in the form \<open>Path\<close> gives.\<close>

definition joinpath :: "string \<Rightarrow> string \<Rightarrow> string" where
  "joinpath p name =
     (if p = ''.'' then name
      else if last p = CHR ''/'' then p @ name
      else p @ ''/'' @ name)"

text \<open>
  \<^verbatim>\<open>Path.exists()\<close> and \<^verbatim>\<open>Path.is_dir()\<close>: an \<^verbatim>\<open>OSError\<close> that does not mean absence is
  raised again. \<^verbatim>\<open>os.path.exists\<close> is false on every error.
\<close>

definition path_exists :: "state \<Rightarrow> string \<Rightarrow> py_exception + bool" where
  "path_exists s p =
     (case files s p of
        Absent \<Rightarrow> Inr False
      | Present k \<Rightarrow> Inr True
      | Unreadable m \<Rightarrow> Inl (OSError m))"

definition is_dir :: "state \<Rightarrow> string \<Rightarrow> py_exception + bool" where
  "is_dir s p =
     (case files s p of
        Absent \<Rightarrow> Inr False
      | Present k \<Rightarrow> Inr (k = Dir)
      | Unreadable m \<Rightarrow> Inl (OSError m))"

definition os_path_exists :: "state \<Rightarrow> string \<Rightarrow> bool" where
  "os_path_exists s p = (case files s p of Present k \<Rightarrow> True | _ \<Rightarrow> False)"

text \<open>
  Python's \<^verbatim>\<open>a and b\<close> on two tests that may raise: \<open>b\<close> is evaluated only when \<open>a\<close> is
  true.
\<close>

definition and_then :: "py_exception + bool \<Rightarrow> py_exception + bool \<Rightarrow> py_exception + bool" where
  "and_then a b = (case a of Inl e \<Rightarrow> Inl e | Inr v \<Rightarrow> if v then b else Inr False)"

section \<open>config.py\<close>

text \<open>\<^verbatim>\<open>MCPConfig.get_unity_editor_path\<close>; an empty configured path is falsy.\<close>

definition windows_editor_path :: string where
  "windows_editor_path =
     ''C:'' @ [CHR 0x5C] @ ''Program Files'' @ [CHR 0x5C] @ ''Unity'' @ [CHR 0x5C] @ ''Hub'' @
     [CHR 0x5C] @ ''Editor'' @ [CHR 0x5C] @ ''2023.3.0f1'' @ [CHR 0x5C] @ ''Editor'' @
     [CHR 0x5C] @ ''Unity.exe''"

definition get_unity_editor_path :: "environment \<Rightarrow> py_exception + string" where
  "get_unity_editor_path env =
     (if (case unity_editor_path env of Some p \<Rightarrow> p \<noteq> [] | None \<Rightarrow> False)
      then Inr (the (unity_editor_path env))
      else if platform_system env = ''Darwin'' then
        Inr ''/Applications/Unity/Hub/Editor/2023.3.0f1/Unity.app/Contents/MacOS/Unity''
      else if platform_system env = ''Windows'' then Inr windows_editor_path
      else if platform_system env = ''Linux'' then Inr ''/opt/Unity/Editor/Unity''
      else Inl (ValueError (''Unsupported platform: '' @ platform_system env)))"

text \<open>\<^verbatim>\<open>MCPConfig.validate_unity_project_path\<close>.\<close>

definition validate_unity_project_path :: "state \<Rightarrow> string \<Rightarrow> py_exception + bool" where
  "validate_unity_project_path s path =
     (let project_path = Path path
      in and_then (path_exists s project_path)
        (and_then (is_dir s project_path)
        (and_then (path_exists s (joinpath project_path ''Assets''))
                  (path_exists s (joinpath project_path ''ProjectSettings'')))))"

section \<open>unity_manager.py\<close>

text \<open>\<^verbatim>\<open>datetime.now()\<close>: move the clock by the next tick and read it.\<close>

definition datetime_now :: "environment \<Rightarrow> state \<Rightarrow> int \<times> state" where
  "datetime_now env s =
     (let t = clock s + ticks env (now_calls s)
      in (t, s\<lparr>clock := t, now_calls := Suc (now_calls s)\<rparr>))"

text \<open>\<^verbatim>\<open>f"{action}_{datetime.now().timestamp()}"\<close> for the reading \<open>t\<close>.\<close>

definition operation_id_of :: "environment \<Rightarrow> string \<Rightarrow> int \<Rightarrow> string" where
  "operation_id_of env action t = action @ ''_'' @ timestamp_str env t"

text \<open>
  The local variable \<^verbatim>\<open>operation\<close> and the entry of \<^verbatim>\<open>active_operations\<close> are the same
  object: an assignment to a field of \<^verbatim>\<open>operation\<close> updates the entry.
\<close>

definition update_operation ::
  "string \<Rightarrow> (unity_operation \<Rightarrow> unity_operation) \<Rightarrow> state \<Rightarrow> state" where
  "update_operation oid f s =
     (case active_operations s oid of
        None \<Rightarrow> s
      | Some operation \<Rightarrow> s\<lparr>active_operations := (active_operations s)(oid \<mapsto> f operation)\<rparr>)"

definition set_status :: "string \<Rightarrow> op_status \<Rightarrow> state \<Rightarrow> state" where
  "set_status oid st s =
     (update_operation oid (\<lambda>operation. operation\<lparr>status := st\<rparr>) s)
       \<lparr>status_log := status_log s @ [(oid, st)]\<rparr>"

definition set_error :: "string \<Rightarrow> string \<Rightarrow> state \<Rightarrow> state" where
  "set_error oid msg s = update_operation oid (\<lambda>operation. operation\<lparr>error := Some msg\<rparr>) s"

definition set_result :: "string \<Rightarrow> json \<Rightarrow> state \<Rightarrow> state" where
  "set_result oid v s = update_operation oid (\<lambda>operation. operation\<lparr>result := Some v\<rparr>) s"

definition set_end_time :: "environment \<Rightarrow> string \<Rightarrow> state \<Rightarrow> state" where
  "set_end_time env oid s =
     (let (t, s1) = datetime_now env s
      in update_operation oid (\<lambda>operation. operation\<lparr>end_time := Some t\<rparr>) s1)"

text \<open>
  \<^verbatim>\<open>asyncio.create_subprocess_exec(*unity_cmd, ..., cwd=project_path)\<close> when the process
  can be created: one more live process.
\<close>

definition create_subprocess_exec :: "string list \<Rightarrow> string \<Rightarrow> bool \<Rightarrow> state \<Rightarrow> state" where
  "create_subprocess_exec cmd dir sigterm s =
     s\<lparr>procs := procs s @
        [\<lparr>argv = cmd, cwd = dir, stdin_data = None, returncode = None,
          exits_on_sigterm = sigterm\<rparr>]\<rparr>"

text \<open>
  \<^verbatim>\<open>process.communicate(input_data)\<close> on the process created last: the input is
  written, and the process has exited with the given code (\<open>Some rc\<close>) or is still
  running (\<open>None\<close>).
\<close>

definition communicate :: "json \<Rightarrow> int option \<Rightarrow> state \<Rightarrow> state" where
  "communicate input_data rc s =
     (if procs s = [] then s
      else s\<lparr>procs := butlast (procs s) @
             [(last (procs s))\<lparr>stdin_data := Some input_data, returncode := rc\<rparr>]\<rparr>)"

text \<open>
  A cancellation while the process is being created: the transport is closed and the
  process created last is killed; nothing was written to it.
\<close>

definition communicate_cancelled :: "state \<Rightarrow> state" where
  "communicate_cancelled s =
     (if procs s = [] then s
      else s\<lparr>procs := butlast (procs s) @ [(last (procs s))\<lparr>returncode := Some (- 9)\<rparr>]\<rparr>)"

text \<open>The branch \<^verbatim>\<open>if process.returncode == 0: ... else: ...\<close> of the \<^verbatim>\<open>try\<close> block.\<close>

definition parse_result ::
  "environment \<Rightarrow> string \<Rightarrow> int \<Rightarrow> bytes \<Rightarrow> bytes \<Rightarrow> state \<Rightarrow> (py_exception + json) \<times> state" where
  "parse_result env oid rc stdout stderr s =
     (if rc = 0 then
        (case decode env stdout of
           Inl e \<Rightarrow> (Inl e, s)
         | Inr text \<Rightarrow>
             (case json_loads env text of
                Loaded res \<Rightarrow>
                  (Inr res, set_end_time env oid (set_result oid res (set_status oid Completed s)))
              | DecodeFails e \<Rightarrow>
                  (let error_msg = ''Failed to parse Unity output: '' @ e
                   in (Inl (ValueError error_msg),
                       set_error oid error_msg (set_status oid Failed s)))
              | RecursionFails m \<Rightarrow> (Inl (RecursionError m), s)
              | ValueFails m \<Rightarrow> (Inl (ValueError m), s)))
      else
        (case decode env stderr of
           Inl e \<Rightarrow> (Inl e, s)
         | Inr text \<Rightarrow>
             (let error_msg = ''Unity process failed with code '' @ show_int rc @ '': '' @ text
              in (Inl (RuntimeError error_msg),
                  set_error oid error_msg (set_status oid Failed s)))))"

text \<open>The \<^verbatim>\<open>try\<close> block of \<^verbatim>\<open>execute_unity_command\<close>.\<close>

definition try_block ::
  "environment \<Rightarrow> behaviour \<Rightarrow> string \<Rightarrow> string \<Rightarrow> string \<Rightarrow> json \<Rightarrow> state
   \<Rightarrow> (py_exception + json) \<times> state" where
  "try_block env beh oid action path parameters s =
     (case validate_unity_project_path s path of
        Inl e \<Rightarrow> (Inl e, s)
      | Inr valid \<Rightarrow>
        if \<not> valid then
          (Inl (ValueError (''Invalid Unity project path: '' @ path)), s)
        else
        (case get_unity_editor_path env of
           Inl e \<Rightarrow> (Inl e, s)
         | Inr editor \<Rightarrow>
             (let unity_cmd =
                    [editor, ''-batchmode'', ''-quit'', ''-projectPath'', path,
                     ''-logFile'', unity_log_file env,
                     ''-executeMethod'', ''UnityMCP.MCPBridge.ExecuteCommand''];
                  command_data = JObj [(''Action'', JStr action), (''Parameters'', parameters)]
              in (case beh of
                    LaunchFails m \<Rightarrow> (Inl (OSError m), s)
                  | Hangs sigterm \<Rightarrow>
                      (Inl AsyncioTimeoutError,
                       communicate command_data None
                         (create_subprocess_exec unity_cmd path sigterm s))
                  | CancelledAtLaunch \<Rightarrow>
                      (Inl CancelledError,
                       communicate_cancelled
                         (create_subprocess_exec unity_cmd path True s))
                  | Cancelled sigterm \<Rightarrow>
                      (Inl CancelledError,
                       communicate command_data None
                         (create_subprocess_exec unity_cmd path sigterm s))
                  | Exits rc stdout stderr \<Rightarrow>
                      parse_result env oid rc stdout stderr
                        (communicate command_data (Some rc)
                           (create_subprocess_exec unity_cmd path True s))))))"

text \<open>
  The handlers \<^verbatim>\<open>except asyncio.TimeoutError\<close> and \<^verbatim>\<open>except Exception as e\<close>; the second
  re-raises \<open>e\<close>. A \<^verbatim>\<open>CancelledError\<close> matches neither and passes through.
\<close>

definition except_handlers ::
  "string \<Rightarrow> int \<Rightarrow> (py_exception + json) \<times> state \<Rightarrow> (py_exception + json) \<times> state" where
  "except_handlers oid timeout r =
     (case r of
        (Inr v, s) \<Rightarrow> (Inr v, s)
      | (Inl AsyncioTimeoutError, s) \<Rightarrow>
          (let error_msg = ''Unity command timed out after '' @ show_int timeout @ '' seconds''
           in (Inl (TimeoutError error_msg), set_error oid error_msg (set_status oid Failed s)))
      | (Inl CancelledError, s) \<Rightarrow> (Inl CancelledError, s)
      | (Inl e, s) \<Rightarrow> (Inl e, set_error oid (str_exc e) (set_status oid Failed s)))"

text \<open>
  The first statements of \<^verbatim>\<open>execute_unity_command\<close>: the id is built from a first
  reading of the clock, the record is created with a second reading as \<^verbatim>\<open>start_time\<close>
  and stored under the id, replacing a record already stored there.
\<close>

definition begin_operation :: "environment \<Rightarrow> state \<Rightarrow> string \<Rightarrow> string \<Rightarrow> string \<times> state" where
  "begin_operation env s action path =
     (let (t0, s1) = datetime_now env s;
          operation_id = operation_id_of env action t0;
          (t1, s2) = datetime_now env s1;
          operation =
            \<lparr>op_id = operation_id, command = action, op_project_path = path,
             status = Pending, start_time = Some t1, end_time = None,
             result = None, error = None\<rparr>
      in (operation_id,
          s2\<lparr>active_operations := (active_operations s2)(operation_id \<mapsto> operation),
             status_log := status_log s2 @ [(operation_id, Pending)]\<rparr>))"

text \<open>
  \<^verbatim>\<open>UnityManager.execute_unity_command\<close>: the record is created and stored, then the
  \<^verbatim>\<open>try\<close> block runs, then a handler if it raised, then the \<^verbatim>\<open>finally\<close> clause. The
  result is \<open>Inr\<close> the returned value or \<open>Inl\<close> the exception raised to the caller.
\<close>

definition execute_unity_command ::
  "environment \<Rightarrow> behaviour \<Rightarrow> state \<Rightarrow> string \<Rightarrow> string \<Rightarrow> json \<Rightarrow> int
   \<Rightarrow> (py_exception + json) \<times> state" where
  "execute_unity_command env beh s action path parameters timeout =
     (let (operation_id, s1) = begin_operation env s action path;
          (r, s2) = except_handlers operation_id timeout
                      (try_block env beh operation_id action path parameters s1)
      in (r, set_end_time env operation_id s2))"

text \<open>\<^verbatim>\<open>UnityManager._create_bridge_script\<close> and \<^verbatim>\<open>UnityManager.__init__\<close>.\<close>

definition create_bridge_script :: "environment \<Rightarrow> state \<Rightarrow> string \<times> state" where
  "create_bridge_script env s =
     (let bridge_path = joinpath (Path (tempdir env)) ''unity_mcp_bridge.cs''
      in (bridge_path, s\<lparr>files := (files s)(bridge_path := Present File)\<rparr>))"

definition init :: "environment \<Rightarrow> state \<Rightarrow> state" where
  "init env s =
     (let (bridge_path, s1) = create_bridge_script env s
      in s1\<lparr>active_operations := Map.empty, unity_processes := [],
            bridge_script_path := bridge_path\<rparr>)"

text \<open>
  \<^verbatim>\<open>poll()\<close>, \<^verbatim>\<open>terminate()\<close> and \<^verbatim>\<open>kill()\<close> on a handle; none of them is taken to
  raise. One second after \<^verbatim>\<open>terminate()\<close> a process that honours the signal has exited
  with code \<open>-15\<close>; \<^verbatim>\<open>kill()\<close> ends it with \<open>-9\<close>. A handle refers to a process that
  was created; for an index outside the table \<open>poll\<close> reports an exited process and the
  other two do nothing.
\<close>

definition poll :: "process list \<Rightarrow> nat \<Rightarrow> int option" where
  "poll ps h = (if h < length ps then returncode (ps ! h) else Some 0)"

definition terminate :: "nat \<Rightarrow> process list \<Rightarrow> process list" where
  "terminate h ps =
     (if h < length ps \<and> returncode (ps ! h) = None \<and> exits_on_sigterm (ps ! h)
      then ps[h := (ps ! h)\<lparr>returncode := Some (- 15)\<rparr>] else ps)"

definition kill :: "nat \<Rightarrow> process list \<Rightarrow> process list" where
  "kill h ps =
     (if h < length ps \<and> returncode (ps ! h) = None
      then ps[h := (ps ! h)\<lparr>returncode := Some (- 9)\<rparr>] else ps)"

text \<open>The loop \<^verbatim>\<open>for process_id, process in self.unity_processes.items()\<close> of \<^verbatim>\<open>cleanup\<close>.\<close>

fun terminate_all :: "(string \<times> nat) list \<Rightarrow> process list \<Rightarrow> process list" where
  "terminate_all [] ps = ps"
| "terminate_all ((process_id, h) # hs) ps =
     terminate_all hs
       (if poll ps h = None then
          (let ps1 = terminate h ps
           in if poll ps1 h = None then kill h ps1 else ps1)
        else ps)"

text \<open>
  \<^verbatim>\<open>UnityManager.cleanup\<close>. \<^verbatim>\<open>os.remove\<close> raises on a directory; the handler logs the
  exception and the path stays.
\<close>

definition cleanup :: "state \<Rightarrow> state" where
  "cleanup s =
     (let s1 = s\<lparr>procs := terminate_all (unity_processes s) (procs s)\<rparr>;
          s2 = s1\<lparr>unity_processes := []\<rparr>;
          s3 = s2\<lparr>active_operations := Map.empty\<rparr>
      in if os_path_exists s3 (bridge_script_path s3) then
           (if files s3 (bridge_script_path s3) = Present File
            then s3\<lparr>files := (files s3)(bridge_script_path s3 := Absent)\<rparr>
            else s3)
         else s3)"

section \<open>A sample environment\<close>

text \<open>
  A concrete environment and state to run the manager on. \<open>sample_json_loads\<close> agrees
  with \<^verbatim>\<open>json.loads\<close> on the documents used below: two JSON objects, and the texts
  \<^verbatim>\<open>not json\<close> and \<^verbatim>\<open>garbled\<close>, for which Python reports
  \<^verbatim>\<open>Expecting value: line 1 column 1 (char 0)\<close>. The sample clock advances by one
  second per reading; Python prints a whole number of seconds \<open>n\<close> as \<^verbatim>\<open>n.0\<close>.
  \<open>sample_codec_error\<close> is what Python reports for the single byte \<^verbatim>\<open>0xff\<close>.
\<close>

definition sample_json_loads :: "string \<Rightarrow> loads_outcome" where
  \<open>sample_json_loads text =
     (if text = ''{"Success": true, "Data": {"count": 3}}'' then
        Loaded (JObj [(''Success'', JBool True), (''Data'', JObj [(''count'', JInt 3)])])
      else if text = ''{"foo": 1}'' then Loaded (JObj [(''foo'', JInt 1)])
      else DecodeFails ''Expecting value: line 1 column 1 (char 0)'')\<close>

definition sample_codec_error :: string where
  "sample_codec_error =
     [CHR 0x27] @ ''utf-8'' @ [CHR 0x27] @
     '' codec can'' @ [CHR 0x27] @ ''t decode byte 0xff in position 0: invalid start byte''"

definition sample_env :: environment where
  "sample_env =
     \<lparr>unity_editor_path = None,
      unity_log_file = ''/tmp/unity_mcp.log'',
      platform_system = ''Linux'',
      tempdir = ''/tmp'',
      json_loads = sample_json_loads,
      codec_error_text = (\<lambda>b. sample_codec_error),
      timestamp_str = (\<lambda>t. show_int (t div 1000000) @ ''.0''),
      ticks = (\<lambda>k. 1000000)\<rparr>"

text \<open>The same environment with a clock that stands still between readings.\<close>

definition coarse_clock_env :: environment where
  "coarse_clock_env = sample_env\<lparr>ticks := (\<lambda>k. 0)\<rparr>"

text \<open>
  The same environment with a clock that is set back by one hour between the second and
  the third reading, as local time is at the end of daylight saving time.
\<close>

definition stepping_clock_env :: environment where
  "stepping_clock_env =
     sample_env\<lparr>ticks := (\<lambda>k. if k = 2 then - 3600000000 else 1000000)\<rparr>"

text \<open>
  \<^verbatim>\<open>proj\<close> is a Unity project; \<^verbatim>\<open>odd\<close> holds a regular file named \<^verbatim>\<open>Assets\<close>;
  \<^verbatim>\<open>bare\<close> has no \<^verbatim>\<open>ProjectSettings\<close>; \<^verbatim>\<open>locked/proj\<close> lies in a directory that may not
  be searched.
\<close>

definition sample_entries :: "string \<Rightarrow> node_kind option" where
  "sample_entries =
     [''proj'' \<mapsto> Dir, ''proj/Assets'' \<mapsto> Dir, ''proj/ProjectSettings'' \<mapsto> Dir,
      ''odd'' \<mapsto> Dir, ''odd/Assets'' \<mapsto> File, ''odd/ProjectSettings'' \<mapsto> Dir,
      ''bare'' \<mapsto> Dir, ''bare/Assets'' \<mapsto> Dir,
      ''/tmp'' \<mapsto> Dir]"

definition sample_files :: "string \<Rightarrow> stat_outcome" where
  "sample_files p =
     (if p = ''locked/proj'' then Unreadable ''[Errno 13] Permission denied''
      else (case sample_entries p of None \<Rightarrow> Absent | Some k \<Rightarrow> Present k))"

definition sample_world :: state where
  "sample_world =
     \<lparr>active_operations = Map.empty, unity_processes = [], bridge_script_path = [],
      files = sample_files, procs = [], clock = 0, now_calls = 0, status_log = []\<rparr>"

definition sample_state :: state where
  "sample_state = init sample_env sample_world"

section \<open>Notions of the specification\<close>

text \<open>
  The result envelope as the specification words it: a JSON object holding
  \<^verbatim>\<open>"Success": true\<close> and a \<^verbatim>\<open>"Data"\<close> member, or \<^verbatim>\<open>"Success": false\<close> and an \<^verbatim>\<open>"Error"\<close>
  member that is a string. The manager itself has no such test.
\<close>

definition expected_envelope :: "json \<Rightarrow> bool" where
  "expected_envelope v =
     (case v of
        JObj kvs \<Rightarrow>
          (case map_of kvs ''Success'' of
             Some (JBool True) \<Rightarrow> map_of kvs ''Data'' \<noteq> None
           | Some (JBool False) \<Rightarrow>
               (case map_of kvs ''Error'' of Some (JStr e) \<Rightarrow> True | _ \<Rightarrow> False)
           | _ \<Rightarrow> False)
      | _ \<Rightarrow> False)"

text \<open>
  A valid project as the specification words it: the path exists, is a directory, and
  contains an assets subdirectory and a settings subdirectory.
\<close>

definition spec_valid_project :: "state \<Rightarrow> string \<Rightarrow> bool" where
  "spec_valid_project s path =
     (files s (Path path) = Present Dir \<and>
      files s (joinpath (Path path) ''Assets'') = Present Dir \<and>
      files s (joinpath (Path path) ''ProjectSettings'') = Present Dir)"

section \<open>How the operations act on each part of the state\<close>

lemma datetime_now_fst: "fst (datetime_now env s) = clock s + ticks env (now_calls s)"
  by (simp add: datetime_now_def Let_def)

lemma datetime_now_snd:
  "snd (datetime_now env s) =
     s\<lparr>clock := clock s + ticks env (now_calls s), now_calls := Suc (now_calls s)\<rparr>"
  by (simp add: datetime_now_def Let_def)

lemma update_operation_fields:
  "procs (update_operation oid f s) = procs s"
  "files (update_operation oid f s) = files s"
  "unity_processes (update_operation oid f s) = unity_processes s"
  "bridge_script_path (update_operation oid f s) = bridge_script_path s"
  "status_log (update_operation oid f s) = status_log s"
  "clock (update_operation oid f s) = clock s"
  "now_calls (update_operation oid f s) = now_calls s"
  by (simp_all add: update_operation_def split: option.split)

lemma update_operation_tracker:
  "active_operations (update_operation oid f s) =
     (case active_operations s oid of
        None \<Rightarrow> active_operations s
      | Some operation \<Rightarrow> (active_operations s)(oid \<mapsto> f operation))"
  by (simp add: update_operation_def split: option.split)

lemma update_operation_at:
  "active_operations (update_operation oid f s) oid = map_option f (active_operations s oid)"
  by (simp add: update_operation_def split: option.split)

lemmas update_operation_simps = update_operation_fields update_operation_at

lemma set_status_fields:
  "procs (set_status oid st s) = procs s"
  "files (set_status oid st s) = files s"
  "unity_processes (set_status oid st s) = unity_processes s"
  "bridge_script_path (set_status oid st s) = bridge_script_path s"
  "status_log (set_status oid st s) = status_log s @ [(oid, st)]"
  "clock (set_status oid st s) = clock s"
  "now_calls (set_status oid st s) = now_calls s"
  "active_operations (set_status oid st s) oid =
     map_option (\<lambda>operation. operation\<lparr>status := st\<rparr>) (active_operations s oid)"
  by (simp_all add: set_status_def update_operation_simps)

lemma set_error_fields:
  "procs (set_error oid m s) = procs s"
  "files (set_error oid m s) = files s"
  "unity_processes (set_error oid m s) = unity_processes s"
  "bridge_script_path (set_error oid m s) = bridge_script_path s"
  "status_log (set_error oid m s) = status_log s"
  "clock (set_error oid m s) = clock s"
  "now_calls (set_error oid m s) = now_calls s"
  "active_operations (set_error oid m s) oid =
     map_option (\<lambda>operation. operation\<lparr>error := Some m\<rparr>) (active_operations s oid)"
  by (simp_all add: set_error_def update_operation_simps)

lemma set_result_fields:
  "procs (set_result oid v s) = procs s"
  "files (set_result oid v s) = files s"
  "unity_processes (set_result oid v s) = unity_processes s"
  "bridge_script_path (set_result oid v s) = bridge_script_path s"
  "status_log (set_result oid v s) = status_log s"
  "clock (set_result oid v s) = clock s"
  "now_calls (set_result oid v s) = now_calls s"
  "active_operations (set_result oid v s) oid =
     map_option (\<lambda>operation. operation\<lparr>result := Some v\<rparr>) (active_operations s oid)"
  by (simp_all add: set_result_def update_operation_simps)

lemma set_end_time_fields:
  "procs (set_end_time env oid s) = procs s"
  "files (set_end_time env oid s) = files s"
  "unity_processes (set_end_time env oid s) = unity_processes s"
  "bridge_script_path (set_end_time env oid s) = bridge_script_path s"
  "status_log (set_end_time env oid s) = status_log s"
  "clock (set_end_time env oid s) = clock s + ticks env (now_calls s)"
  "now_calls (set_end_time env oid s) = Suc (now_calls s)"
  "active_operations (set_end_time env oid s) oid =
     map_option (\<lambda>operation. operation\<lparr>end_time := Some (clock s + ticks env (now_calls s))\<rparr>)
       (active_operations s oid)"
  by (simp_all add: set_end_time_def datetime_now_def Let_def update_operation_simps)

lemma spawn_fields:
  "files (create_subprocess_exec cmd dir g s) = files s"
  "unity_processes (create_subprocess_exec cmd dir g s) = unity_processes s"
  "bridge_script_path (create_subprocess_exec cmd dir g s) = bridge_script_path s"
  "status_log (create_subprocess_exec cmd dir g s) = status_log s"
  "clock (create_subprocess_exec cmd dir g s) = clock s"
  "now_calls (create_subprocess_exec cmd dir g s) = now_calls s"
  "active_operations (create_subprocess_exec cmd dir g s) = active_operations s"
  "procs (create_subprocess_exec cmd dir g s) =
     procs s @ [\<lparr>argv = cmd, cwd = dir, stdin_data = None, returncode = None,
                 exits_on_sigterm = g\<rparr>]"
  by (simp_all add: create_subprocess_exec_def)

lemma communicate_fields:
  "files (communicate d rc s) = files s"
  "unity_processes (communicate d rc s) = unity_processes s"
  "bridge_script_path (communicate d rc s) = bridge_script_path s"
  "status_log (communicate d rc s) = status_log s"
  "clock (communicate d rc s) = clock s"
  "now_calls (communicate d rc s) = now_calls s"
  "active_operations (communicate d rc s) = active_operations s"
  by (simp_all add: communicate_def)

lemma communicate_cancelled_fields:
  "files (communicate_cancelled s) = files s"
  "unity_processes (communicate_cancelled s) = unity_processes s"
  "bridge_script_path (communicate_cancelled s) = bridge_script_path s"
  "status_log (communicate_cancelled s) = status_log s"
  "clock (communicate_cancelled s) = clock s"
  "now_calls (communicate_cancelled s) = now_calls s"
  "active_operations (communicate_cancelled s) = active_operations s"
  by (simp_all add: communicate_cancelled_def)

lemma communicate_spawn_procs:
  "procs (communicate d rc (create_subprocess_exec cmd dir g s)) =
     procs s @ [\<lparr>argv = cmd, cwd = dir, stdin_data = Some d, returncode = rc,
                 exits_on_sigterm = g\<rparr>]"
  by (simp add: communicate_def create_subprocess_exec_def)

lemma validate_cong:
  "files s' = files s \<Longrightarrow> validate_unity_project_path s' path = validate_unity_project_path s path"
  by (simp add: validate_unity_project_path_def path_exists_def is_dir_def)

lemma begin_operation_id:
  "fst (begin_operation env s action path) =
     operation_id_of env action (clock s + ticks env (now_calls s))"
  by (simp add: begin_operation_def datetime_now_def Let_def)

lemma begin_operation_fields:
  "procs (snd (begin_operation env s action path)) = procs s"
  "files (snd (begin_operation env s action path)) = files s"
  "unity_processes (snd (begin_operation env s action path)) = unity_processes s"
  "bridge_script_path (snd (begin_operation env s action path)) = bridge_script_path s"
  "status_log (snd (begin_operation env s action path)) =
     status_log s @ [(fst (begin_operation env s action path), Pending)]"
  "now_calls (snd (begin_operation env s action path)) = Suc (Suc (now_calls s))"
  by (simp_all add: begin_operation_def datetime_now_def Let_def)

lemma begin_operation_clock:
  "clock (snd (begin_operation env s action path)) =
     clock s + ticks env (now_calls s) + ticks env (Suc (now_calls s))"
  by (simp add: begin_operation_def datetime_now_def Let_def)

lemma begin_operation_tracker:
  "active_operations (snd (begin_operation env s action path)) =
     (active_operations s)(fst (begin_operation env s action path) \<mapsto>
        \<lparr>op_id = fst (begin_operation env s action path), command = action,
         op_project_path = path, status = Pending,
         start_time = Some (clock s + ticks env (now_calls s) +
                            ticks env (Suc (now_calls s))),
         end_time = None, result = None, error = None\<rparr>)"
  by (simp add: begin_operation_def datetime_now_def Let_def)

lemma execute_unfold:
  "execute_unity_command env beh s action path parameters timeout =
     (let oid = fst (begin_operation env s action path);
          r = except_handlers oid timeout
                (try_block env beh oid action path parameters
                   (snd (begin_operation env s action path)))
      in (fst r, set_end_time env oid (snd r)))"
  by (simp add: execute_unity_command_def Let_def split_def)

lemma try_block_unreadable:
  "validate_unity_project_path s path = Inl e \<Longrightarrow>
   try_block env beh oid action path parameters s = (Inl e, s)"
  by (simp add: try_block_def)

lemma try_block_invalid:
  "validate_unity_project_path s path = Inr False \<Longrightarrow>
   try_block env beh oid action path parameters s =
     (Inl (ValueError (''Invalid Unity project path: '' @ path)), s)"
  by (simp add: try_block_def)

lemma try_block_hangs:
  "validate_unity_project_path s path = Inr True \<Longrightarrow>
   get_unity_editor_path env = Inr editor \<Longrightarrow>
   try_block env (Hangs g) oid action path parameters s =
     (Inl AsyncioTimeoutError,
      communicate (JObj [(''Action'', JStr action), (''Parameters'', parameters)]) None
        (create_subprocess_exec
           [editor, ''-batchmode'', ''-quit'', ''-projectPath'', path,
            ''-logFile'', unity_log_file env,
            ''-executeMethod'', ''UnityMCP.MCPBridge.ExecuteCommand''] path g s))"
  by (simp add: try_block_def Let_def)

lemma try_block_exits:
  "validate_unity_project_path s path = Inr True \<Longrightarrow>
   get_unity_editor_path env = Inr editor \<Longrightarrow>
   try_block env (Exits rc out err) oid action path parameters s =
     parse_result env oid rc out err
       (communicate (JObj [(''Action'', JStr action), (''Parameters'', parameters)]) (Some rc)
          (create_subprocess_exec
             [editor, ''-batchmode'', ''-quit'', ''-projectPath'', path,
              ''-logFile'', unity_log_file env,
              ''-executeMethod'', ''UnityMCP.MCPBridge.ExecuteCommand''] path True s))"
  by (simp add: try_block_def Let_def)

lemma except_handlers_return: "except_handlers oid timeout (Inr v, s) = (Inr v, s)"
  by (simp add: except_handlers_def)

lemma except_handlers_timeout:
  "except_handlers oid timeout (Inl AsyncioTimeoutError, s) =
     (Inl (TimeoutError (''Unity command timed out after '' @ show_int timeout @ '' seconds'')),
      set_error oid (''Unity command timed out after '' @ show_int timeout @ '' seconds'')
        (set_status oid Failed s))"
  by (simp add: except_handlers_def Let_def)

lemma except_handlers_cancelled:
  "except_handlers oid timeout (Inl CancelledError, s) = (Inl CancelledError, s)"
  by (simp add: except_handlers_def)

lemma except_handlers_other:
  "e \<noteq> AsyncioTimeoutError \<Longrightarrow> e \<noteq> CancelledError \<Longrightarrow>
   except_handlers oid timeout (Inl e, s) =
     (Inl e, set_error oid (str_exc e) (set_status oid Failed s))"
  by (cases e) (simp_all add: except_handlers_def)

lemma validate_begin:
  "validate_unity_project_path (snd (begin_operation env s action path)) p =
   validate_unity_project_path s p"
  by (rule validate_cong) (simp add: begin_operation_fields)

lemma execute_hangs:
  assumes "validate_unity_project_path s path = Inr True"
    and "get_unity_editor_path env = Inr editor"
  shows "execute_unity_command env (Hangs g) s action path parameters timeout =
     (Inl (TimeoutError (''Unity command timed out after '' @ show_int timeout @ '' seconds'')),
      set_end_time env (fst (begin_operation env s action path))
        (set_error (fst (begin_operation env s action path))
           (''Unity command timed out after '' @ show_int timeout @ '' seconds'')
           (set_status (fst (begin_operation env s action path)) Failed
              (communicate (JObj [(''Action'', JStr action), (''Parameters'', parameters)]) None
                 (create_subprocess_exec
                    [editor, ''-batchmode'', ''-quit'', ''-projectPath'', path,
                     ''-logFile'', unity_log_file env,
                     ''-executeMethod'', ''UnityMCP.MCPBridge.ExecuteCommand''] path g
                    (snd (begin_operation env s action path)))))))"
  using assms
  by (simp add: execute_unfold Let_def validate_begin try_block_hangs except_handlers_timeout)

lemma update_operation_dom:
  "dom (active_operations (update_operation oid f s)) = dom (active_operations s)"
  by (auto simp: update_operation_def split: option.splits if_splits)

lemma setters_dom:
  "dom (active_operations (set_status oid st s)) = dom (active_operations s)"
  "dom (active_operations (set_error oid m s)) = dom (active_operations s)"
  "dom (active_operations (set_result oid v s)) = dom (active_operations s)"
  "dom (active_operations (set_end_time env oid s)) = dom (active_operations s)"
  by (simp_all add: set_status_def set_error_def set_result_def set_end_time_def
      datetime_now_def Let_def update_operation_dom)

lemma begin_operation_dom:
  "dom (active_operations (snd (begin_operation env s action path))) =
     insert (fst (begin_operation env s action path)) (dom (active_operations s))"
  by (simp add: begin_operation_tracker)

lemma decode_Inl:
  "decode env b = Inl e \<Longrightarrow> e = UnicodeDecodeError (codec_error_text env b)"
  by (simp add: decode_def split: if_splits)

lemma parse_result_ok:
  "decode env out = Inr text \<Longrightarrow> json_loads env text = Loaded v \<Longrightarrow>
   parse_result env oid 0 out err s =
     (Inr v, set_end_time env oid (set_result oid v (set_status oid Completed s)))"
  by (simp add: parse_result_def)

lemma parse_result_bad_json:
  "decode env out = Inr text \<Longrightarrow> json_loads env text = DecodeFails e \<Longrightarrow>
   parse_result env oid 0 out err s =
     (Inl (ValueError (''Failed to parse Unity output: '' @ e)),
      set_error oid (''Failed to parse Unity output: '' @ e) (set_status oid Failed s))"
  by (simp add: parse_result_def Let_def)

lemma parse_result_nonzero:
  "rc \<noteq> 0 \<Longrightarrow> decode env err = Inr text \<Longrightarrow>
   parse_result env oid rc out err s =
     (Inl (RuntimeError (''Unity process failed with code '' @ show_int rc @ '': '' @ text)),
      set_error oid (''Unity process failed with code '' @ show_int rc @ '': '' @ text)
        (set_status oid Failed s))"
  by (simp add: parse_result_def Let_def)

lemma parse_result_nonzero_undecodable:
  "rc \<noteq> 0 \<Longrightarrow> decode env err = Inl e \<Longrightarrow>
   parse_result env oid rc out err s = (Inl e, s)"
  by (simp add: parse_result_def)

lemma parse_result_undecodable:
  "decode env out = Inl e \<Longrightarrow> parse_result env oid 0 out err s = (Inl e, s)"
  by (simp add: parse_result_def)

lemma execute_invalid:
  assumes "validate_unity_project_path s path = Inr False"
  shows "execute_unity_command env beh s action path parameters timeout =
     (Inl (ValueError (''Invalid Unity project path: '' @ path)),
      set_end_time env (fst (begin_operation env s action path))
        (set_error (fst (begin_operation env s action path))
           (''Invalid Unity project path: '' @ path)
           (set_status (fst (begin_operation env s action path)) Failed
              (snd (begin_operation env s action path)))))"
  using assms
  by (simp add: execute_unfold Let_def validate_begin try_block_invalid except_handlers_other)

lemma and_then_Inl:
  "and_then a b = Inl e \<Longrightarrow> a = Inl e \<or> b = Inl e"
  by (auto simp: and_then_def split: sum.splits if_splits)

lemma validation_raises_OSError:
  assumes "validate_unity_project_path s path = Inl e"
  shows "\<exists>m. e = OSError m"
proof -
  have stat: "\<exists>m. e = OSError m" if "path_exists s p = Inl e \<or> is_dir s p = Inl e" for p
    using that by (auto simp: path_exists_def is_dir_def split: stat_outcome.splits)
  from assms show ?thesis
    unfolding validate_unity_project_path_def Let_def
    by (blast dest: and_then_Inl intro: stat)
qed

text \<open>
  Validation raises nothing but an \<^verbatim>\<open>OSError\<close>; the call then raises the same error, after
  the record has been marked failed.
\<close>

lemma execute_unreadable:
  assumes "validate_unity_project_path s path = Inl e"
  shows "execute_unity_command env beh s action path parameters timeout =
     (Inl e,
      set_end_time env (fst (begin_operation env s action path))
        (set_error (fst (begin_operation env s action path)) (str_exc e)
           (set_status (fst (begin_operation env s action path)) Failed
              (snd (begin_operation env s action path)))))"
proof -
  obtain m where "e = OSError m"
    using validation_raises_OSError [OF assms] by blast
  then have "e \<noteq> AsyncioTimeoutError" "e \<noteq> CancelledError"
    by simp_all
  then show ?thesis
    using assms
    by (simp add: execute_unfold Let_def validate_begin try_block_unreadable
        except_handlers_other)
qed

text \<open>
  A call that is cancelled while it waits for the process raises \<^verbatim>\<open>CancelledError\<close> and
  leaves its record pending.
\<close>

lemma execute_cancelled:
  assumes "validate_unity_project_path s path = Inr True"
    and "get_unity_editor_path env = Inr editor"
  shows "fst (execute_unity_command env (Cancelled g) s action path parameters timeout) =
           Inl CancelledError
       \<and> status_log (snd (execute_unity_command env (Cancelled g) s action path parameters timeout)) =
           status_log s @ [(fst (begin_operation env s action path), Pending)]
       \<and> map_option status
           (active_operations
              (snd (execute_unity_command env (Cancelled g) s action path parameters timeout))
              (fst (begin_operation env s action path))) = Some Pending"
  using assms
  by (simp add: execute_unfold Let_def validate_begin try_block_def except_handlers_cancelled
      set_status_fields set_error_fields set_result_fields set_end_time_fields spawn_fields
      communicate_fields begin_operation_fields begin_operation_tracker)

lemma execute_exits:
  assumes "validate_unity_project_path s path = Inr True"
    and "get_unity_editor_path env = Inr editor"
  shows "execute_unity_command env (Exits rc out err) s action path parameters timeout =
     (let oid = fst (begin_operation env s action path);
          r = except_handlers oid timeout
                (parse_result env oid rc out err
                   (communicate (JObj [(''Action'', JStr action), (''Parameters'', parameters)])
                      (Some rc)
                      (create_subprocess_exec
                         [editor, ''-batchmode'', ''-quit'', ''-projectPath'', path,
                          ''-logFile'', unity_log_file env,
                          ''-executeMethod'', ''UnityMCP.MCPBridge.ExecuteCommand''] path True
                         (snd (begin_operation env s action path)))))
      in (fst r, set_end_time env oid (snd r)))"
  using assms
  by (simp add: execute_unfold Let_def validate_begin try_block_exits)

lemmas state_fields =
  communicate_cancelled_fields set_status_fields set_error_fields set_result_fields set_end_time_fields
  spawn_fields communicate_fields communicate_spawn_procs begin_operation_fields
  begin_operation_clock

subsection \<open>The status log\<close>

text \<open>
  What one call adds to the log after the first value pending: nothing when the task is
  cancelled, and otherwise completed once or failed once or twice. The value running is
  never added.
\<close>

lemma handled_status_log:
  "status_log (snd (except_handlers oid timeout
                      (try_block env beh oid action path parameters s))) =
     status_log s
   \<or> status_log (snd (except_handlers oid timeout
                      (try_block env beh oid action path parameters s))) =
     status_log s @ [(oid, Completed)]
   \<or> status_log (snd (except_handlers oid timeout
                      (try_block env beh oid action path parameters s))) =
     status_log s @ [(oid, Failed)]
   \<or> status_log (snd (except_handlers oid timeout
                      (try_block env beh oid action path parameters s))) =
     status_log s @ [(oid, Failed), (oid, Failed)]"
  by (simp add: try_block_def parse_result_def except_handlers_def Let_def state_fields
      decode_def
      split: if_splits sum.splits behaviour.splits py_exception.splits loads_outcome.splits)

lemma call_never_logs_running:
  assumes "(k, Running) \<in>
      set (status_log (snd (execute_unity_command env beh s action path parameters timeout)))"
  shows "(k, Running) \<in> set (status_log s)"
proof -
  let ?oid = "fst (begin_operation env s action path)"
  let ?s1 = "snd (begin_operation env s action path)"
  let ?s2 = "snd (except_handlers ?oid timeout
                    (try_block env beh ?oid action path parameters ?s1))"
  have log: "status_log ?s2 = status_log ?s1
      \<or> status_log ?s2 = status_log ?s1 @ [(?oid, Completed)]
      \<or> status_log ?s2 = status_log ?s1 @ [(?oid, Failed)]
      \<or> status_log ?s2 = status_log ?s1 @ [(?oid, Failed), (?oid, Failed)]"
    by (rule handled_status_log)
  have exec: "status_log (snd (execute_unity_command env beh s action path parameters timeout)) =
      status_log ?s2"
    by (simp add: execute_unfold Let_def state_fields)
  show ?thesis
    using assms log unfolding exec
    by (auto simp: state_fields)
qed

subsection \<open>Cleanup\<close>

text \<open>
  Every handle entered in \<^verbatim>\<open>unity_processes\<close> is ended by \<^verbatim>\<open>cleanup\<close>; a call of
  \<^verbatim>\<open>execute_unity_command\<close> enters none.
\<close>

lemma cleanup_fields:
  "procs (cleanup s) = terminate_all (unity_processes s) (procs s)"
  "unity_processes (cleanup s) = []"
  "active_operations (cleanup s) = Map.empty"
  "bridge_script_path (cleanup s) = bridge_script_path s"
  "files (cleanup s) =
     (if files s (bridge_script_path s) = Present File
      then (files s)(bridge_script_path s := Absent) else files s)"
  by (simp_all add: cleanup_def Let_def os_path_exists_def)

lemma terminate_all_length: "length (terminate_all hs ps) = length ps"
  by (induction hs ps rule: terminate_all.induct)
     (simp_all add: Let_def terminate_def kill_def)

lemma terminate_kill_exited:
  "h < length ps \<Longrightarrow>
   returncode ((if poll ps h = None then
                  (let ps1 = terminate h ps in if poll ps1 h = None then kill h ps1 else ps1)
                else ps) ! h) \<noteq> None"
  by (auto simp: Let_def poll_def terminate_def kill_def)

lemma terminate_kill_keeps_exited:
  "k < length ps \<Longrightarrow> returncode (ps ! k) \<noteq> None \<Longrightarrow>
   returncode ((if poll ps h = None then
                  (let ps1 = terminate h ps in if poll ps1 h = None then kill h ps1 else ps1)
                else ps) ! k) \<noteq> None"
  by (auto simp: Let_def poll_def terminate_def kill_def nth_list_update)

lemma terminate_kill_length:
  "length (if poll ps h = None then
             (let ps1 = terminate h ps in if poll ps1 h = None then kill h ps1 else ps1)
           else ps) = length ps"
  by (simp add: Let_def terminate_def kill_def)

lemma terminate_all_keeps_exited:
  "k < length ps \<Longrightarrow> returncode (ps ! k) \<noteq> None \<Longrightarrow>
   returncode (terminate_all hs ps ! k) \<noteq> None"
proof (induction hs ps rule: terminate_all.induct)
  case (1 ps)
  then show ?case by simp
next
  case (2 process_id h hs ps)
  show ?case
    unfolding terminate_all.simps
    by (rule "2.IH") (use "2.prems" in \<open>simp_all only: terminate_kill_length terminate_kill_keeps_exited not_False_eq_True\<close>)
qed

lemma terminate_all_registered:
  "(process_id, h) \<in> set hs \<Longrightarrow> h < length ps \<Longrightarrow>
   returncode (terminate_all hs ps ! h) \<noteq> None"
proof (induction hs ps rule: terminate_all.induct)
  case (1 ps)
  then show ?case by simp
next
  case (2 pid' h' hs ps)
  let ?ps = "if poll ps h' = None then
               (let ps1 = terminate h' ps in if poll ps1 h' = None then kill h' ps1 else ps1)
             else ps"
  have len: "h < length ?ps"
    using "2.prems"(2) by (simp only: terminate_kill_length)
  show ?case
  proof (cases "h = h'")
    case True
    have "returncode (?ps ! h) \<noteq> None"
      unfolding True using "2.prems"(2) True by (intro terminate_kill_exited) simp
    then have "returncode (terminate_all hs ?ps ! h) \<noteq> None"
      using len by (intro terminate_all_keeps_exited)
    then show ?thesis by simp
  next
    case False
    then have "(process_id, h) \<in> set hs"
      using "2.prems"(1) by auto
    then have "returncode (terminate_all hs ?ps ! h) \<noteq> None"
      using len by (intro "2.IH")
    then show ?thesis by simp
  qed
qed

lemma cleanup_ends_registered_processes:
  "(process_id, h) \<in> set (unity_processes s) \<Longrightarrow> h < length (procs s) \<Longrightarrow>
   returncode (procs (cleanup s) ! h) \<noteq> None"
  by (simp add: cleanup_fields terminate_all_registered)

lemma execute_registers_nothing:
  "unity_processes (snd (execute_unity_command env beh s action path parameters timeout)) =
   unity_processes s"
  by (simp add: execute_unfold try_block_def parse_result_def except_handlers_def Let_def
      state_fields decode_def
      split: if_splits sum.splits behaviour.splits py_exception.splits loads_outcome.splits)

subsection \<open>Operation ids\<close>

lemma takeWhile_upto_separator:
  "x \<notin> set xs \<Longrightarrow> takeWhile (\<lambda>c. c \<noteq> x) (xs @ x # ys) = xs"
  by (induction xs) auto

lemma id_parts_unique:
  assumes "a @ CHR ''_'' # r = a' @ CHR ''_'' # r'"
    and "CHR ''_'' \<notin> set r" and "CHR ''_'' \<notin> set r'"
  shows "a = a' \<and> r = r'"
proof -
  have "rev (a @ CHR ''_'' # r) = rev (a' @ CHR ''_'' # r')"
    using assms(1) by simp
  then have eq: "rev r @ CHR ''_'' # rev a = rev r' @ CHR ''_'' # rev a'"
    by simp
  have "takeWhile (\<lambda>c. c \<noteq> CHR ''_'') (rev r @ CHR ''_'' # rev a) = rev r"
    using assms(2) by (intro takeWhile_upto_separator) simp
  moreover have "takeWhile (\<lambda>c. c \<noteq> CHR ''_'') (rev r' @ CHR ''_'' # rev a') = rev r'"
    using assms(3) by (intro takeWhile_upto_separator) simp
  ultimately have "rev r = rev r'"
    using eq by simp
  then have r: "r = r'" by simp
  with assms(1) show ?thesis by simp
qed

lemma operation_id_of_eq:
  assumes "\<forall>t. CHR ''_'' \<notin> set (timestamp_str env t)"
  shows "operation_id_of env a t = operation_id_of env a' t' \<longleftrightarrow>
         a = a' \<and> timestamp_str env t = timestamp_str env t'"
  using assms id_parts_unique [of a "timestamp_str env t" a' "timestamp_str env t'"]
  by (auto simp: operation_id_of_def)

lemma show_nat_digits: "set (show_nat n) \<subseteq> set ''0123456789''"
proof (induction n rule: show_nat.induct)
  case (1 n)
  have digit: "''0123456789'' ! k \<in> set ''0123456789''" if "k < 10" for k
    using that by (intro nth_mem) simp
  show ?case
  proof (cases "n < 10")
    case True
    then show ?thesis
      using digit [of n] by (subst show_nat.simps) simp
  next
    case False
    have "n mod 10 < 10" by simp
    then have "''0123456789'' ! (n mod 10) \<in> set ''0123456789''"
      by (rule digit)
    then show ?thesis
      using 1 False by (subst show_nat.simps) simp
  qed
qed

lemma execute_files:
  "files (snd (execute_unity_command env beh s action path parameters timeout)) = files s"
  by (simp add: execute_unfold try_block_def parse_result_def except_handlers_def Let_def
      state_fields decode_def
      split: if_splits sum.splits behaviour.splits py_exception.splits loads_outcome.splits)

subsection \<open>Facts about the sample environment\<close>

lemmas sample_state_defs =
  sample_state_def init_def create_bridge_script_def sample_world_def sample_files_def
  sample_entries_def sample_env_def Path_def joinpath_def Let_def

lemma sample_valid: "validate_unity_project_path sample_state ''proj'' = Inr True"
  by (simp add: validate_unity_project_path_def sample_state_defs path_exists_def is_dir_def
      and_then_def)

lemma sample_editor: "get_unity_editor_path sample_env = Inr ''/opt/Unity/Editor/Unity''"
  by (simp add: get_unity_editor_path_def sample_env_def)

lemma sample_procs: "procs sample_state = []"
  by (simp add: sample_state_def init_def create_bridge_script_def sample_world_def Let_def)

lemma show_int_1: "show_int 1 = ''1''"
  by (simp add: show_int_def show_nat.simps)

lemma sample_invalid: "validate_unity_project_path sample_state ''bare'' = Inr False"
  by (simp add: validate_unity_project_path_def sample_state_defs path_exists_def is_dir_def
      and_then_def)

lemma sample_locked:
  "validate_unity_project_path sample_state ''locked/proj'' =
     Inl (OSError ''[Errno 13] Permission denied'')"
  by (simp add: validate_unity_project_path_def sample_state_defs path_exists_def is_dir_def
      and_then_def)

lemma sample_tracker: "active_operations sample_state = Map.empty"
  by (simp add: sample_state_def init_def create_bridge_script_def sample_world_def Let_def)

lemma sample_call_id:
  "fst (begin_operation sample_env sample_state action path) = action @ ''_1.0''"
  by (simp add: begin_operation_id operation_id_of_def sample_state_def init_def
      create_bridge_script_def sample_world_def sample_env_def Let_def show_int_def
      show_nat.simps)

lemma sample_decode_envelope:
  \<open>decode sample_env ''{"Success": true, "Data": {"count": 3}}'' =
     Inr ''{"Success": true, "Data": {"count": 3}}''\<close>
  by (simp add: decode_def)

lemma sample_loads_envelope:
  \<open>json_loads sample_env ''{"Success": true, "Data": {"count": 3}}'' =
     Loaded (JObj [(''Success'', JBool True), (''Data'', JObj [(''count'', JInt 3)])])\<close>
  by (simp add: sample_env_def sample_json_loads_def)

lemma sample_decode_foo: \<open>decode sample_env ''{"foo": 1}'' = Inr ''{"foo": 1}''\<close>
  by (simp add: decode_def)

lemma sample_loads_foo:
  \<open>json_loads sample_env ''{"foo": 1}'' = Loaded (JObj [(''foo'', JInt 1)])\<close>
  by (simp add: sample_env_def sample_json_loads_def)

lemma sample_decode_not_json: "decode sample_env ''not json'' = Inr ''not json''"
  by (simp add: decode_def)

lemma sample_loads_not_json:
  "json_loads sample_env ''not json'' = DecodeFails ''Expecting value: line 1 column 1 (char 0)''"
  by (simp add: sample_env_def sample_json_loads_def)

lemma sample_decode_garbled: "decode sample_env ''garbled'' = Inr ''garbled''"
  by (simp add: decode_def)

lemma sample_loads_garbled:
  "json_loads sample_env ''garbled'' = DecodeFails ''Expecting value: line 1 column 1 (char 0)''"
  by (simp add: sample_env_def sample_json_loads_def)

lemma sample_decode_stderr:
  "decode sample_env ''NullReferenceException'' = Inr ''NullReferenceException''"
  by (simp add: decode_def)

lemma sample_decode_ff: "decode sample_env [CHR 0xFF] = Inl (UnicodeDecodeError sample_codec_error)"
  by (simp add: decode_def sample_env_def)

lemma sample_status_log: "status_log sample_state = []"
  by (simp add: sample_state_def init_def create_bridge_script_def sample_world_def Let_def)

lemma sample_unity_processes: "unity_processes sample_state = []"
  by (simp add: sample_state_def init_def create_bridge_script_def sample_world_def Let_def)

lemma sample_bridge: "bridge_script_path sample_state = ''/tmp/unity_mcp_bridge.cs''"
  by (simp add: sample_state_def init_def create_bridge_script_def sample_world_def Let_def
      sample_env_def Path_def joinpath_def)

lemma sample_bridge_file: "files sample_state ''/tmp/unity_mcp_bridge.cs'' = Present File"
  by (simp add: sample_state_def init_def create_bridge_script_def sample_world_def Let_def
      sample_env_def Path_def joinpath_def)

lemma sample_timestamp_no_underscore: "\<forall>t. CHR ''_'' \<notin> set (timestamp_str sample_env t)"
proof
  fix t :: int
  have "CHR ''_'' \<notin> set (show_nat n)" for n
    using show_nat_digits [of n] by auto
  then show "CHR ''_'' \<notin> set (timestamp_str sample_env t)"
    by (simp add: sample_env_def show_int_def)
qed

lemma sample_clock: "clock sample_state = 0" "now_calls sample_state = 0"
  by (simp_all add: sample_state_def init_def create_bridge_script_def sample_world_def Let_def)

lemma coarse_editor: "get_unity_editor_path coarse_clock_env = Inr ''/opt/Unity/Editor/Unity''"
  by (simp add: get_unity_editor_path_def coarse_clock_env_def sample_env_def)

lemma coarse_ticks: "ticks coarse_clock_env k = 0"
  by (simp add: coarse_clock_env_def)

lemma coarse_timestamp_str: "timestamp_str coarse_clock_env 0 = ''0.0''"
  by (simp add: coarse_clock_env_def sample_env_def show_int_def show_nat.simps)

lemma coarse_decode_envelope:
  \<open>decode coarse_clock_env ''{"Success": true, "Data": {"count": 3}}'' =
     Inr ''{"Success": true, "Data": {"count": 3}}''\<close>
  by (simp add: decode_def)

lemma coarse_loads_envelope:
  \<open>json_loads coarse_clock_env ''{"Success": true, "Data": {"count": 3}}'' =
     Loaded (JObj [(''Success'', JBool True), (''Data'', JObj [(''count'', JInt 3)])])\<close>
  by (simp add: coarse_clock_env_def sample_env_def sample_json_loads_def)

lemma stepping_editor: "get_unity_editor_path stepping_clock_env = Inr ''/opt/Unity/Editor/Unity''"
  by (simp add: get_unity_editor_path_def stepping_clock_env_def sample_env_def)

lemma stepping_ticks: "ticks stepping_clock_env k = (if k = 2 then - 3600000000 else 1000000)"
  by (simp add: stepping_clock_env_def)

lemma stepping_call_id:
  "fst (begin_operation stepping_clock_env sample_state action path) = action @ ''_1.0''"
  by (simp add: begin_operation_id operation_id_of_def sample_state_defs stepping_clock_env_def
      show_int_def show_nat.simps)

lemma stepping_decode_envelope:
  \<open>decode stepping_clock_env ''{"Success": true, "Data": {"count": 3}}'' =
     Inr ''{"Success": true, "Data": {"count": 3}}''\<close>
  by (simp add: decode_def)

lemma stepping_loads_envelope:
  \<open>json_loads stepping_clock_env ''{"Success": true, "Data": {"count": 3}}'' =
     Loaded (JObj [(''Success'', JBool True), (''Data'', JObj [(''count'', JInt 3)])])\<close>
  by (simp add: stepping_clock_env_def sample_env_def sample_json_loads_def)

subsection \<open>A nonzero exit code with readable standard error\<close>

text \<open>
  When the process exits with a nonzero code and its standard error is well-formed
  UTF-8, the call raises \<^verbatim>\<open>RuntimeError\<close> with the exit code and the text, and the record
  is failed with the same message.
\<close>

lemma nonzero_exit_raises_runtime_error:
  assumes "validate_unity_project_path s path = Inr True"
    and "get_unity_editor_path env = Inr editor"
    and "rc \<noteq> 0"
    and "decode env err = Inr decoded"
  shows "fst (execute_unity_command env (Exits rc out err) s action path parameters timeout) =
           Inl (RuntimeError (''Unity process failed with code '' @ show_int rc @ '': '' @ decoded))
       \<and> (\<exists>operation.
             active_operations
               (snd (execute_unity_command env (Exits rc out err) s action path parameters timeout))
               (fst (begin_operation env s action path)) = Some operation
           \<and> status operation = Failed
           \<and> error operation =
               Some (''Unity process failed with code '' @ show_int rc @ '': '' @ decoded))"
  by (simp add: execute_exits [OF assms(1,2)] parse_result_nonzero [OF assms(3,4)]
      except_handlers_other Let_def state_fields begin_operation_tracker)

section \<open>The claims\<close>

subsection \<open>C1: a timeout and the subprocess\<close>

text \<open>
  C1, as amended. For every call of \<^verbatim>\<open>execute_unity_command\<close> whose subprocess is
  started and does not exit within the timeout, the call raises \<^verbatim>\<open>TimeoutError\<close> with
  the message \<^verbatim>\<open>Unity command timed out after <timeout> seconds\<close> and the record of the
  operation ends in status failed with that message and an end time. The call itself does
  not terminate the subprocess: the process it created is still alive when the error is
  raised.
\<close>

theorem timeout_raises_leaving_subprocess_alive:
  assumes "validate_unity_project_path s path = Inr True"
    and "get_unity_editor_path env = Inr editor"
  shows "fst (execute_unity_command env (Hangs g) s action path parameters timeout) =
           Inl (TimeoutError (''Unity command timed out after '' @ show_int timeout @ '' seconds''))
       \<and> (\<exists>p. procs (snd (execute_unity_command env (Hangs g) s action path parameters timeout)) =
                 procs s @ [p] \<and> returncode p = None)
       \<and> (\<exists>operation.
             active_operations (snd (execute_unity_command env (Hangs g) s action path parameters timeout))
               (fst (begin_operation env s action path)) = Some operation
           \<and> status operation = Failed
           \<and> error operation =
               Some (''Unity command timed out after '' @ show_int timeout @ '' seconds'')
           \<and> end_time operation \<noteq> None)"
  by (simp add: execute_hangs [OF assms] state_fields begin_operation_tracker)

theorem timeout_raises_leaving_subprocess_alive_witness:
  "validate_unity_project_path sample_state ''proj'' = Inr True
   \<and> get_unity_editor_path sample_env = Inr ''/opt/Unity/Editor/Unity''
   \<and> fst (execute_unity_command sample_env (Hangs True) sample_state ''scene.validate'' ''proj''
             (JObj []) 1) =
       Inl (TimeoutError ''Unity command timed out after 1 seconds'')
   \<and> (\<exists>p. procs (snd (execute_unity_command sample_env (Hangs True) sample_state
                          ''scene.validate'' ''proj'' (JObj []) 1)) = [p]
          \<and> returncode p = None)"
  using timeout_raises_leaving_subprocess_alive [OF sample_valid sample_editor,
      of True "''scene.validate''" "JObj []" 1]
  by (simp add: sample_valid sample_editor sample_procs show_int_1)

text \<open>
  Against C1 as stated: on the sample project, with an editor that hangs and a timeout
  of one second, the call raises \<^verbatim>\<open>TimeoutError\<close> and the only process, the one it
  started, has no return code: it is alive.
\<close>

theorem timeout_leaves_live_subprocess:
  "fst (execute_unity_command sample_env (Hangs True) sample_state ''scene.validate'' ''proj''
          (JObj []) 1) =
     Inl (TimeoutError ''Unity command timed out after 1 seconds'')
   \<and> map returncode
       (procs (snd (execute_unity_command sample_env (Hangs True) sample_state
                      ''scene.validate'' ''proj'' (JObj []) 1))) = [None]"
  by (simp add: execute_hangs [OF sample_valid sample_editor] state_fields sample_procs show_int_1)

subsection \<open>C2: a project path that fails validation\<close>

text \<open>
  C2, as amended. For every project path for which validation returns false,
  \<^verbatim>\<open>execute_unity_command\<close> raises \<^verbatim>\<open>ValueError\<close> with the message
  \<^verbatim>\<open>Invalid Unity project path: <path>\<close> and no subprocess is created. A record of the
  operation is created all the same, before the path is validated: the tracker gains
  exactly the key of this call, and its record ends in status failed with that message
  and no result.
\<close>

theorem invalid_project_fails_without_spawn:
  assumes "validate_unity_project_path s path = Inr False"
  shows "fst (execute_unity_command env beh s action path parameters timeout) =
           Inl (ValueError (''Invalid Unity project path: '' @ path))
       \<and> procs (snd (execute_unity_command env beh s action path parameters timeout)) = procs s
       \<and> dom (active_operations (snd (execute_unity_command env beh s action path parameters timeout))) =
           insert (fst (begin_operation env s action path)) (dom (active_operations s))
       \<and> (\<exists>operation.
             active_operations (snd (execute_unity_command env beh s action path parameters timeout))
               (fst (begin_operation env s action path)) = Some operation
           \<and> status operation = Failed
           \<and> error operation = Some (''Invalid Unity project path: '' @ path)
           \<and> result operation = None)"
  by (simp add: execute_invalid [OF assms] state_fields setters_dom begin_operation_dom
      begin_operation_tracker)

theorem invalid_project_fails_without_spawn_witness:
  "validate_unity_project_path sample_state ''bare'' = Inr False
   \<and> fst (execute_unity_command sample_env (Exits 0 [] []) sample_state ''scene.validate''
            ''bare'' (JObj []) 300) = Inl (ValueError ''Invalid Unity project path: bare'')
   \<and> procs (snd (execute_unity_command sample_env (Exits 0 [] []) sample_state
                    ''scene.validate'' ''bare'' (JObj []) 300)) = []
   \<and> dom (active_operations (snd (execute_unity_command sample_env (Exits 0 [] []) sample_state
                    ''scene.validate'' ''bare'' (JObj []) 300))) = {''scene.validate_1.0''}"
  using invalid_project_fails_without_spawn [OF sample_invalid,
      of sample_env "Exits 0 [] []" "''scene.validate''" "JObj []" 300]
  by (simp add: sample_invalid sample_procs sample_tracker sample_call_id)

text \<open>
  Against C2 as stated: validation returns false for \<^verbatim>\<open>bare\<close>, the tracker holds no
  record before the call, and a record with status failed after it.
\<close>

theorem invalid_project_creates_record:
  "validate_unity_project_path sample_state ''bare'' = Inr False
   \<and> active_operations sample_state ''scene.validate_1.0'' = None
   \<and> map_option status
       (active_operations (snd (execute_unity_command sample_env (Exits 0 [] []) sample_state
                                  ''scene.validate'' ''bare'' (JObj []) 300))
          ''scene.validate_1.0'') = Some Failed"
  by (simp add: sample_invalid execute_invalid [OF sample_invalid] state_fields
      begin_operation_tracker sample_tracker sample_call_id)

subsection \<open>C3: a successful exchange\<close>

text \<open>
  C3, as amended. For every call of \<^verbatim>\<open>execute_unity_command\<close> whose subprocess exits
  with code zero and whose standard output decodes (as UTF-8 text, then as JSON), the
  call returns the decoded value as it is, and the record of the operation ends in status
  completed with the decoded value as result. Its end time is the start time moved by
  the two ticks of the clock that follow; it is not before the start time when the clock
  has not been set back.
\<close>

theorem successful_exchange_returns_decoded_value:
  assumes "validate_unity_project_path s path = Inr True"
    and "get_unity_editor_path env = Inr editor"
    and "decode env out = Inr text"
    and "json_loads env text = Loaded v"
  shows "fst (execute_unity_command env (Exits 0 out err) s action path parameters timeout) = Inr v
       \<and> (\<exists>operation t_start t_end.
             active_operations
               (snd (execute_unity_command env (Exits 0 out err) s action path parameters timeout))
               (fst (begin_operation env s action path)) = Some operation
           \<and> status operation = Completed
           \<and> result operation = Some v
           \<and> start_time operation = Some t_start
           \<and> end_time operation = Some t_end
           \<and> t_end = t_start + ticks env (Suc (Suc (now_calls s)))
                              + ticks env (Suc (Suc (Suc (now_calls s))))
           \<and> ((\<forall>k. 0 \<le> ticks env k) \<longrightarrow> t_start \<le> t_end))"
proof -
  have "0 \<le> ticks env (Suc (Suc (now_calls s))) + ticks env (Suc (Suc (Suc (now_calls s))))"
    if "\<forall>k. 0 \<le> ticks env k"
    using that by (simp add: add_nonneg_nonneg)
  then show ?thesis
    by (simp add: execute_exits [OF assms(1,2)] parse_result_ok [OF assms(3,4)]
        except_handlers_return Let_def state_fields begin_operation_tracker)
qed

theorem successful_exchange_returns_decoded_value_witness:
  \<open>validate_unity_project_path sample_state ''proj'' = Inr True
   \<and> get_unity_editor_path sample_env = Inr ''/opt/Unity/Editor/Unity''
   \<and> decode sample_env ''{"Success": true, "Data": {"count": 3}}'' =
       Inr ''{"Success": true, "Data": {"count": 3}}''
   \<and> json_loads sample_env ''{"Success": true, "Data": {"count": 3}}'' =
       Loaded (JObj [(''Success'', JBool True), (''Data'', JObj [(''count'', JInt 3)])])
   \<and> (\<forall>k. 0 \<le> ticks sample_env k)
   \<and> fst (execute_unity_command sample_env
            (Exits 0 ''{"Success": true, "Data": {"count": 3}}'' []) sample_state
            ''project.scan'' ''proj'' (JObj []) 300) =
       Inr (JObj [(''Success'', JBool True), (''Data'', JObj [(''count'', JInt 3)])])\<close>
proof -
  have mono: "\<forall>k. 0 \<le> ticks sample_env k"
    by (simp add: sample_env_def)
  show ?thesis
    using successful_exchange_returns_decoded_value
      [OF sample_valid sample_editor sample_decode_envelope sample_loads_envelope,
        of "[]" "''project.scan''" "JObj []" 300] mono
    by (simp add: sample_valid sample_editor sample_decode_envelope sample_loads_envelope)
qed

text \<open>
  Against C3 as stated: the clock is set back by one hour after the start time has been
  read; the call succeeds and its record is completed with an end time before its start
  time.
\<close>

theorem clock_set_back_puts_end_before_start:
  \<open>fst (execute_unity_command stepping_clock_env
          (Exits 0 ''{"Success": true, "Data": {"count": 3}}'' []) sample_state
          ''project.scan'' ''proj'' (JObj []) 300) =
     Inr (JObj [(''Success'', JBool True), (''Data'', JObj [(''count'', JInt 3)])])
   \<and> map_option status
       (active_operations
          (snd (execute_unity_command stepping_clock_env
                  (Exits 0 ''{"Success": true, "Data": {"count": 3}}'' []) sample_state
                  ''project.scan'' ''proj'' (JObj []) 300))
          ''project.scan_1.0'') = Some Completed
   \<and> map_option start_time
       (active_operations
          (snd (execute_unity_command stepping_clock_env
                  (Exits 0 ''{"Success": true, "Data": {"count": 3}}'' []) sample_state
                  ''project.scan'' ''proj'' (JObj []) 300))
          ''project.scan_1.0'') = Some (Some 2000000)
   \<and> map_option end_time
       (active_operations
          (snd (execute_unity_command stepping_clock_env
                  (Exits 0 ''{"Success": true, "Data": {"count": 3}}'' []) sample_state
                  ''project.scan'' ''proj'' (JObj []) 300))
          ''project.scan_1.0'') = Some (Some (- 3597000000))\<close>
  by (simp add: execute_exits [OF sample_valid stepping_editor]
      parse_result_ok [OF stepping_decode_envelope stepping_loads_envelope]
      except_handlers_return Let_def state_fields begin_operation_tracker stepping_call_id
      stepping_ticks sample_clock)

subsection \<open>C4: the status of a record\<close>

text \<open>
  C4, evaluated where the code departs from it. A call on the sample project starts a
  subprocess, which exits with code zero and a decodable answer. The status of the
  record is given the values pending and then completed, and no other: the record is
  never set to running, although the comment on the field lists running among its
  values.
\<close>

theorem spawned_operation_is_never_running:
  \<open>length (procs (snd (execute_unity_command sample_env
                          (Exits 0 ''{"Success": true, "Data": {"count": 3}}'' []) sample_state
                          ''project.scan'' ''proj'' (JObj []) 300))) = 1
   \<and> status_log (snd (execute_unity_command sample_env
                          (Exits 0 ''{"Success": true, "Data": {"count": 3}}'' []) sample_state
                          ''project.scan'' ''proj'' (JObj []) 300)) =
       [(''project.scan_1.0'', Pending), (''project.scan_1.0'', Completed)]\<close>
  by (simp add: execute_exits [OF sample_valid sample_editor]
      parse_result_ok [OF sample_decode_envelope sample_loads_envelope]
      except_handlers_return Let_def state_fields sample_procs sample_status_log sample_call_id)

subsection \<open>C5: cleanup at shutdown\<close>

text \<open>
  C5, evaluated where the code departs from it. A call of \<^verbatim>\<open>execute_unity_command\<close>
  times out; it has entered no handle in \<^verbatim>\<open>unity_processes\<close>. Then \<^verbatim>\<open>cleanup\<close> clears
  the tracker and removes the bridge script, but the subprocess started by the call is
  still alive afterwards.
\<close>

theorem cleanup_leaves_spawned_subprocess_alive:
  "unity_processes (snd (execute_unity_command sample_env (Hangs True) sample_state
                           ''scene.validate'' ''proj'' (JObj []) 1)) = []
   \<and> map returncode
       (procs (cleanup (snd (execute_unity_command sample_env (Hangs True) sample_state
                               ''scene.validate'' ''proj'' (JObj []) 1)))) = [None]
   \<and> active_operations
       (cleanup (snd (execute_unity_command sample_env (Hangs True) sample_state
                        ''scene.validate'' ''proj'' (JObj []) 1))) = Map.empty
   \<and> files (cleanup (snd (execute_unity_command sample_env (Hangs True) sample_state
                            ''scene.validate'' ''proj'' (JObj []) 1)))
       ''/tmp/unity_mcp_bridge.cs'' = Absent"
  by (simp add: cleanup_fields execute_hangs [OF sample_valid sample_editor] state_fields
      sample_procs sample_unity_processes sample_bridge sample_bridge_file)

subsection \<open>C6: output that does not decode\<close>

text \<open>
  C6, as amended. For every call of \<^verbatim>\<open>execute_unity_command\<close> whose subprocess exits
  with code zero and whose standard output is text: when \<^verbatim>\<open>json.loads\<close> rejects the text
  with a \<^verbatim>\<open>JSONDecodeError\<close>, the call raises \<^verbatim>\<open>ValueError\<close> with the message
  \<^verbatim>\<open>Failed to parse Unity output: \<close> followed by the decoder's description of the error,
  and the record ends in status failed with that message; when \<^verbatim>\<open>json.loads\<close> returns a
  value, of the shape of the envelope or of any other, the call returns that value.
\<close>

theorem malformed_json_fails:
  assumes "validate_unity_project_path s path = Inr True"
    and "get_unity_editor_path env = Inr editor"
    and "decode env out = Inr text"
  shows "(\<forall>e. json_loads env text = DecodeFails e \<longrightarrow>
            fst (execute_unity_command env (Exits 0 out err) s action path parameters timeout) =
              Inl (ValueError (''Failed to parse Unity output: '' @ e))
          \<and> (\<exists>operation.
                active_operations
                  (snd (execute_unity_command env (Exits 0 out err) s action path parameters
                          timeout))
                  (fst (begin_operation env s action path)) = Some operation
              \<and> status operation = Failed
              \<and> error operation = Some (''Failed to parse Unity output: '' @ e)))
       \<and> (\<forall>v. json_loads env text = Loaded v \<longrightarrow>
            fst (execute_unity_command env (Exits 0 out err) s action path parameters timeout) =
              Inr v)"
proof (intro conjI allI impI)
  fix e
  assume bad: "json_loads env text = DecodeFails e"
  show "fst (execute_unity_command env (Exits 0 out err) s action path parameters timeout) =
      Inl (ValueError (''Failed to parse Unity output: '' @ e))"
    by (simp add: execute_exits [OF assms(1,2)] parse_result_bad_json [OF assms(3) bad]
        except_handlers_other Let_def)
  show "\<exists>operation.
      active_operations
        (snd (execute_unity_command env (Exits 0 out err) s action path parameters timeout))
        (fst (begin_operation env s action path)) = Some operation
      \<and> status operation = Failed
      \<and> error operation = Some (''Failed to parse Unity output: '' @ e)"
    by (simp add: execute_exits [OF assms(1,2)] parse_result_bad_json [OF assms(3) bad]
        except_handlers_other Let_def state_fields begin_operation_tracker)
next
  fix v
  assume good: "json_loads env text = Loaded v"
  show "fst (execute_unity_command env (Exits 0 out err) s action path parameters timeout) = Inr v"
    by (simp add: execute_exits [OF assms(1,2)] parse_result_ok [OF assms(3) good]
        except_handlers_return Let_def)
qed

theorem malformed_json_fails_witness:
  \<open>validate_unity_project_path sample_state ''proj'' = Inr True
   \<and> get_unity_editor_path sample_env = Inr ''/opt/Unity/Editor/Unity''
   \<and> decode sample_env ''not json'' = Inr ''not json''
   \<and> json_loads sample_env ''not json'' =
       DecodeFails ''Expecting value: line 1 column 1 (char 0)''
   \<and> fst (execute_unity_command sample_env (Exits 0 ''not json'' []) sample_state
            ''project.scan'' ''proj'' (JObj []) 300) =
       Inl (ValueError
              ''Failed to parse Unity output: Expecting value: line 1 column 1 (char 0)'')
   \<and> decode sample_env ''{"foo": 1}'' = Inr ''{"foo": 1}''
   \<and> json_loads sample_env ''{"foo": 1}'' = Loaded (JObj [(''foo'', JInt 1)])
   \<and> fst (execute_unity_command sample_env (Exits 0 ''{"foo": 1}'' []) sample_state
            ''project.scan'' ''proj'' (JObj []) 300) = Inr (JObj [(''foo'', JInt 1)])\<close>
  using malformed_json_fails
    [OF sample_valid sample_editor sample_decode_not_json,
      of "[]" "''project.scan''" "JObj []" 300]
    malformed_json_fails
    [OF sample_valid sample_editor sample_decode_foo,
      of "[]" "''project.scan''" "JObj []" 300]
  by (simp add: sample_valid sample_editor sample_decode_not_json sample_loads_not_json
      sample_decode_foo sample_loads_foo)

text \<open>
  Against C6 as stated: the output \<^verbatim>\<open>{"foo": 1}\<close> is not the envelope and is returned as
  a success; and the two outputs \<^verbatim>\<open>not json\<close> and \<^verbatim>\<open>garbled\<close> raise one and the same
  error, which therefore does not hold the captured output.
\<close>

theorem non_envelope_json_is_returned:
  \<open>\<not> expected_envelope (JObj [(''foo'', JInt 1)])
   \<and> fst (execute_unity_command sample_env (Exits 0 ''{"foo": 1}'' []) sample_state
            ''project.scan'' ''proj'' (JObj []) 300) = Inr (JObj [(''foo'', JInt 1)])
   \<and> fst (execute_unity_command sample_env (Exits 0 ''not json'' []) sample_state
            ''project.scan'' ''proj'' (JObj []) 300) =
       Inl (ValueError
              ''Failed to parse Unity output: Expecting value: line 1 column 1 (char 0)'')
   \<and> fst (execute_unity_command sample_env (Exits 0 ''garbled'' []) sample_state
            ''project.scan'' ''proj'' (JObj []) 300) =
       Inl (ValueError
              ''Failed to parse Unity output: Expecting value: line 1 column 1 (char 0)'')\<close>
  by (simp add: expected_envelope_def execute_exits [OF sample_valid sample_editor]
      parse_result_ok [OF sample_decode_foo sample_loads_foo]
      parse_result_bad_json [OF sample_decode_not_json sample_loads_not_json]
      parse_result_bad_json [OF sample_decode_garbled sample_loads_garbled]
      except_handlers_return except_handlers_other Let_def)

subsection \<open>C7: a nonzero exit code\<close>

text \<open>
  C7, evaluated where the code departs from it. The subprocess exits with code 1 and the
  single byte \<^verbatim>\<open>0xff\<close> on its standard error. Building the message of the
  \<^verbatim>\<open>RuntimeError\<close> fails in \<^verbatim>\<open>stderr.decode()\<close>: the call raises \<^verbatim>\<open>UnicodeDecodeError\<close>, and
  the record is failed with the text of that error, which holds neither the exit code nor
  the standard error.
\<close>

theorem undecodable_stderr_raises_decode_error:
  "fst (execute_unity_command sample_env (Exits 1 [] [CHR 0xFF]) sample_state
          ''build.run'' ''proj'' (JObj []) 300) =
     Inl (UnicodeDecodeError sample_codec_error)
   \<and> map_option error
       (active_operations
          (snd (execute_unity_command sample_env (Exits 1 [] [CHR 0xFF]) sample_state
                  ''build.run'' ''proj'' (JObj []) 300))
          ''build.run_1.0'') = Some (Some sample_codec_error)"
proof -
  have nz: "(1::int) \<noteq> 0" by simp
  show ?thesis
    by (simp add: execute_exits [OF sample_valid sample_editor]
        parse_result_nonzero_undecodable [OF nz sample_decode_ff]
        except_handlers_other Let_def state_fields begin_operation_tracker sample_call_id)
qed

subsection \<open>C8: operation ids\<close>

text \<open>
  C8, as amended. The id of an operation is the action name, an underscore and the
  printed timestamp read when the call is entered. When printed timestamps hold no
  underscore, two invocations receive the same id exactly when they have the same action
  and read the same printed timestamp; the record stored under the id is the new,
  pending one, whatever the tracker held there before. So two invocations of one action
  that read the same timestamp share one id and one record.
\<close>

theorem operation_ids_collide_iff_same_action_and_reading:
  assumes "\<forall>t. CHR ''_'' \<notin> set (timestamp_str env t)"
  shows "(fst (begin_operation env s a p) = fst (begin_operation env s' a' p') \<longleftrightarrow>
           a = a' \<and>
           timestamp_str env (fst (datetime_now env s)) =
           timestamp_str env (fst (datetime_now env s')))
       \<and> map_option status
           (active_operations (snd (begin_operation env s a p)) (fst (begin_operation env s a p))) =
         Some Pending"
  by (simp add: begin_operation_id datetime_now_fst operation_id_of_eq [OF assms]
      begin_operation_tracker)

theorem operation_ids_collide_iff_same_action_and_reading_witness:
  "(\<forall>t. CHR ''_'' \<notin> set (timestamp_str sample_env t))
   \<and> fst (begin_operation sample_env sample_state ''build.run'' ''proj'') \<noteq>
       fst (begin_operation sample_env sample_state ''test.run'' ''proj'')"
  using operation_ids_collide_iff_same_action_and_reading [OF sample_timestamp_no_underscore,
      of sample_state "''build.run''" "''proj''" sample_state "''test.run''" "''proj''"]
  by (simp add: sample_timestamp_no_underscore)

text \<open>
  Against C8 as stated: with a clock that has not advanced, a call of \<^verbatim>\<open>build.run\<close> on
  \<^verbatim>\<open>bare\<close> (it fails validation, so it ends without waiting and starts no process) and
  a second call of \<^verbatim>\<open>build.run\<close> on \<^verbatim>\<open>proj\<close> receive the same id, and after both the
  tracker holds one record.
\<close>

theorem same_action_same_reading_same_id:
  \<open>fst (begin_operation coarse_clock_env sample_state ''build.run'' ''bare'') = ''build.run_0.0''
   \<and> fst (begin_operation coarse_clock_env
            (snd (execute_unity_command coarse_clock_env (Hangs True) sample_state
                    ''build.run'' ''bare'' (JObj []) 300))
            ''build.run'' ''proj'') = ''build.run_0.0''
   \<and> dom (active_operations
            (snd (execute_unity_command coarse_clock_env
                    (Exits 0 ''{"Success": true, "Data": {"count": 3}}'' [])
                    (snd (execute_unity_command coarse_clock_env (Hangs True) sample_state
                            ''build.run'' ''bare'' (JObj []) 300))
                    ''build.run'' ''proj'' (JObj []) 300))) = {''build.run_0.0''}\<close>
proof -
  let ?s1 = "snd (execute_unity_command coarse_clock_env (Hangs True) sample_state
                    ''build.run'' ''bare'' (JObj []) 300)"
  have id0: "fst (begin_operation coarse_clock_env sample_state ''build.run'' ''bare'') =
      ''build.run_0.0''"
    by (simp add: begin_operation_id operation_id_of_def coarse_ticks sample_clock
        coarse_timestamp_str)
  have id1: "fst (begin_operation coarse_clock_env ?s1 ''build.run'' ''proj'') = ''build.run_0.0''"
    by (simp add: begin_operation_id operation_id_of_def coarse_ticks
        execute_invalid [OF sample_invalid] state_fields sample_clock coarse_timestamp_str)
  have dom1: "dom (active_operations ?s1) = {''build.run_0.0''}"
    by (simp add: execute_invalid [OF sample_invalid] setters_dom begin_operation_dom id0
        sample_tracker)
  have valid1: "validate_unity_project_path ?s1 ''proj'' = Inr True"
    using sample_valid by (simp add: validate_cong [OF execute_files])
  have dom2: "dom (active_operations
            (snd (execute_unity_command coarse_clock_env
                    (Exits 0 ''{\"Success\": true, \"Data\": {\"count\": 3}}'' [])
                    ?s1 ''build.run'' ''proj'' (JObj []) 300))) = {''build.run_0.0''}"
    by (simp add: execute_exits [OF valid1 coarse_editor]
        parse_result_ok [OF coarse_decode_envelope coarse_loads_envelope]
        except_handlers_return Let_def setters_dom begin_operation_dom id1 dom1
        state_fields)
  show ?thesis
    using id0 id1 dom2 by simp
qed

subsection \<open>C9: project validation\<close>

text \<open>
  C9, as amended. For every path, project validation returns true if and only if the
  path is a directory and holds an entry named \<^verbatim>\<open>Assets\<close> and an entry named
  \<^verbatim>\<open>ProjectSettings\<close>, each of any kind, file or directory; and
  \<^verbatim>\<open>execute_unity_command\<close> creates a process only when validation has returned true.
\<close>

theorem validation_is_directory_with_two_entries:
  "(validate_unity_project_path s path = Inr True \<longleftrightarrow>
      files s (Path path) = Present Dir
      \<and> (\<exists>k. files s (joinpath (Path path) ''Assets'') = Present k)
      \<and> (\<exists>k. files s (joinpath (Path path) ''ProjectSettings'') = Present k))
   \<and> (procs (snd (execute_unity_command env beh s action path parameters timeout)) \<noteq> procs s
        \<longrightarrow> validate_unity_project_path s path = Inr True)"
proof (intro conjI impI)
  show "validate_unity_project_path s path = Inr True \<longleftrightarrow>
      files s (Path path) = Present Dir
      \<and> (\<exists>k. files s (joinpath (Path path) ''Assets'') = Present k)
      \<and> (\<exists>k. files s (joinpath (Path path) ''ProjectSettings'') = Present k)"
    by (auto simp: validate_unity_project_path_def path_exists_def is_dir_def and_then_def
        Let_def split: stat_outcome.splits)
next
  assume changed:
    "procs (snd (execute_unity_command env beh s action path parameters timeout)) \<noteq> procs s"
  show "validate_unity_project_path s path = Inr True"
  proof (cases "validate_unity_project_path s path")
    case (Inl e)
    have "procs (snd (execute_unity_command env beh s action path parameters timeout)) = procs s"
      by (simp add: execute_unreadable [OF Inl] state_fields)
    with changed show ?thesis by simp
  next
    case (Inr valid)
    show ?thesis
    proof (rule ccontr)
      assume "validate_unity_project_path s path \<noteq> Inr True"
      with Inr have invalid: "validate_unity_project_path s path = Inr False"
        by simp
      have "procs (snd (execute_unity_command env beh s action path parameters timeout)) = procs s"
        by (simp add: execute_invalid [OF invalid] state_fields)
      with changed show False by simp
    qed
  qed
qed

theorem validation_is_directory_with_two_entries_witness:
  "procs (snd (execute_unity_command sample_env (Hangs True) sample_state ''scene.validate''
                 ''proj'' (JObj []) 1)) \<noteq> procs sample_state
   \<and> validate_unity_project_path sample_state ''proj'' = Inr True
   \<and> files sample_state (Path ''proj'') = Present Dir"
  using validation_is_directory_with_two_entries
    [of sample_state "''proj''" sample_env "Hangs True" "''scene.validate''" "JObj []" 1]
  by (simp add: execute_hangs [OF sample_valid sample_editor] state_fields sample_procs
      sample_valid)

text \<open>
  Against C9 as stated: \<^verbatim>\<open>odd\<close> holds a regular file named \<^verbatim>\<open>Assets\<close>, has no assets
  subdirectory, and passes validation.
\<close>

theorem file_named_Assets_passes_validation:
  "validate_unity_project_path sample_state ''odd'' = Inr True
   \<and> files sample_state (joinpath (Path ''odd'') ''Assets'') = Present File
   \<and> \<not> spec_valid_project sample_state ''odd''"
  by (simp add: validate_unity_project_path_def spec_valid_project_def sample_state_defs
      path_exists_def is_dir_def and_then_def)

end
